theory Spec2Isabelle
  imports Main "HOL-Library.Word"
begin

unbundle bit_operations_syntax

section \<open>Data model\<close>

text \<open>
  A \<open>Decimal128\<close> (cpp/src/arrow/util/decimal.cc) holds a signed 64-bit high half and an
  unsigned 64-bit low half. Both halves are 64-bit words here; the high half is read as
  two's complement (\<open>sint\<close>, \<open><s\<close>) wherever the source compares it as \<open>int64_t\<close>.
\<close>

type_synonym u8 = "8 word"
type_synonym u32 = "32 word"
type_synonym u64 = "64 word"
type_synonym u128 = "128 word"

record Decimal128 =
  high_bits :: u64
  low_bits :: u64

text \<open>\<open>Status\<close> as the source uses it: \<open>Status::OK()\<close> or \<open>Status::Invalid(message)\<close>.\<close>

datatype Status = OK | Invalid string

text \<open>
  What a call does: it returns, an exception of the standard library leaves it
  (\<open>std::stol\<close> throws \<open>std::invalid_argument\<close> and \<open>std::out_of_range\<close>), or it executes
  an operation that has no result at all (an integer division by zero, a read past the
  end of a table).
\<close>

datatype 'a outcome = Returns 'a | Throws string | Undefined

text \<open>The mathematical value of a \<open>Decimal128\<close>: \<open>high * 2^64 + low\<close>, as a 128-bit word
  and as a signed integer.\<close>

definition to_word :: "Decimal128 \<Rightarrow> u128" where
  "to_word d = push_bit 64 (ucast (high_bits d)) + ucast (low_bits d)"

definition to_int :: "Decimal128 \<Rightarrow> int" where
  "to_int d = sint (high_bits d) * 2 ^ 64 + uint (low_bits d)"

text \<open>Modelled from the spec: the constructors \<open>Decimal128(int64_t high, uint64_t low)\<close> and
  \<open>Decimal128(int64_t value)\<close> of decimal.h, which is not among the sources; the second
  sign-extends (high = v >> 63, low = bit-cast of v).\<close>

definition Decimal128_of_parts :: "u64 \<Rightarrow> u64 \<Rightarrow> Decimal128" where
  "Decimal128_of_parts h l = \<lparr>high_bits = h, low_bits = l\<rparr>"

definition Decimal128_of_int64 :: "u64 \<Rightarrow> Decimal128" where
  "Decimal128_of_int64 v = \<lparr>high_bits = (if 0 \<le>s v then 0 else - 1), low_bits = v\<rparr>"

section \<open>Comparison, negation, addition, multiplication\<close>

definition less_Decimal128 :: "Decimal128 \<Rightarrow> Decimal128 \<Rightarrow> bool" where
  "less_Decimal128 left right \<longleftrightarrow>
     high_bits left <s high_bits right \<or>
     (high_bits left = high_bits right \<and> low_bits left < low_bits right)"

definition eq_Decimal128 :: "Decimal128 \<Rightarrow> Decimal128 \<Rightarrow> bool" where
  "eq_Decimal128 left right \<longleftrightarrow>
     high_bits left = high_bits right \<and> low_bits left = low_bits right"

definition Negate :: "Decimal128 \<Rightarrow> Decimal128" where
  "Negate d =
     (let low = NOT (low_bits d) + 1;
          high = NOT (high_bits d)
      in \<lparr>high_bits = (if low = 0 then high + 1 else high), low_bits = low\<rparr>)"

definition Abs :: "Decimal128 \<Rightarrow> Decimal128" where
  "Abs d = (if less_Decimal128 d (Decimal128_of_int64 0) then Negate d else d)"

text \<open>\<open>operator+=\<close>.\<close>

definition add_assign :: "Decimal128 \<Rightarrow> Decimal128 \<Rightarrow> Decimal128" where
  "add_assign d right =
     (let sum = low_bits d + low_bits right;
          high = high_bits d + high_bits right
      in \<lparr>high_bits = (if sum < low_bits d then high + 1 else high), low_bits = sum\<rparr>)"

definition kIntMask :: u64 where
  "kIntMask = 0xFFFFFFFF"

definition kCarryBit :: u64 where
  "kCarryBit = push_bit 32 1"

text \<open>\<open>operator*=\<close>, statement by statement. The mixed \<open>int64_t\<close>/\<open>uint64_t\<close> additions
  to \<open>high_bits_\<close> are carried out in \<open>uint64_t\<close> and wrap.\<close>

definition mul_assign :: "Decimal128 \<Rightarrow> Decimal128 \<Rightarrow> Decimal128" where
  "mul_assign d right =
     (let L0 = drop_bit 32 (high_bits d);
          L1 = high_bits d AND kIntMask;
          L2 = drop_bit 32 (low_bits d);
          L3 = low_bits d AND kIntMask;
          R0 = drop_bit 32 (high_bits right);
          R1 = high_bits right AND kIntMask;
          R2 = drop_bit 32 (low_bits right);
          R3 = low_bits right AND kIntMask;
          product = L3 * R3;
          low1 = product AND kIntMask;
          sum1 = drop_bit 32 product;
          product2 = L2 * R3;
          sum2 = sum1 + product2;
          product3 = L3 * R2;
          sum = sum2 + product3;
          low = low1 + push_bit 32 sum;
          high1 = (if sum < product3 then kCarryBit else 0);
          high2 = (if sum < product3 then high1 + kCarryBit else high1);
          high3 = high2 + drop_bit 32 sum;
          high4 = high3 + (L1 * R3 + L2 * R2 + L3 * R1);
          high5 = high4 + push_bit 32 (L0 * R3 + L1 * R2 + L2 * R1 + L3 * R0)
      in \<lparr>high_bits = high5, low_bits = low\<rparr>)"

text \<open>The binary \<open>operator*\<close> copies its left operand and multiplies the copy.\<close>

definition times_Decimal128 :: "Decimal128 \<Rightarrow> Decimal128 \<Rightarrow> Decimal128" where
  "times_Decimal128 left right =
     mul_assign (Decimal128_of_parts (high_bits left) (low_bits left)) right"

section \<open>Division\<close>

text \<open>\<open>FillInArray\<close>: the absolute value as 32-bit limbs, most significant first, and the
  sign. The list returned is the part of the array that the returned length covers.\<close>

definition FillInArray :: "Decimal128 \<Rightarrow> u32 list \<times> bool" where
  "FillInArray v =
     (let highbits = high_bits v;
          lowbits = low_bits v;
          was_negative = highbits <s 0;
          low = (if was_negative then NOT lowbits + 1 else lowbits);
          high = (if was_negative
                  then (if low = 0 then NOT highbits + 1 else NOT highbits)
                  else highbits)
      in if high \<noteq> 0 then
           (if high > 0xFFFFFFFF
            then ([ucast (drop_bit 32 high), ucast high,
                   ucast (drop_bit 32 low), ucast low], was_negative)
            else ([ucast high, ucast (drop_bit 32 low), ucast low], was_negative))
         else if low \<ge> 0xFFFFFFFF
           then ([ucast (drop_bit 32 low), ucast low], was_negative)
         else if low = 0 then ([], was_negative)
         else ([ucast low], was_negative))"

text \<open>Shifts of a \<open>uint32_t\<close>. C++ defines them for counts from 0 to 31. For any other
  count the model does what the shift instructions of x86-64 and AArch64 do with a 32-bit
  operand: they take the count modulo 32.\<close>

definition shl32 :: "u32 \<Rightarrow> int \<Rightarrow> u32" where
  "shl32 x n = push_bit (nat (n mod 32)) x"

definition shr32 :: "u32 \<Rightarrow> int \<Rightarrow> u32" where
  "shr32 x n = drop_bit (nat (n mod 32)) x"

text \<open>\<open>ShiftArrayLeft\<close> and \<open>ShiftArrayRight\<close>; \<open>bits\<close> is an \<open>int64_t\<close>.\<close>

fun ShiftArrayLeft_loop :: "u32 list \<Rightarrow> int \<Rightarrow> u32 list" where
  "ShiftArrayLeft_loop [] bits = []"
| "ShiftArrayLeft_loop [x] bits = [shl32 x bits]"
| "ShiftArrayLeft_loop (x # y # ys) bits =
     (shl32 x bits OR shr32 y (32 - bits)) # ShiftArrayLeft_loop (y # ys) bits"

definition ShiftArrayLeft :: "u32 list \<Rightarrow> int \<Rightarrow> u32 list" where
  "ShiftArrayLeft array bits =
     (if length array > 0 \<and> bits \<noteq> 0 then ShiftArrayLeft_loop array bits else array)"

text \<open>The right shift runs from the last limb down; \<open>prev\<close> is the limb before the list.\<close>

fun ShiftArrayRight_loop :: "u32 \<Rightarrow> u32 list \<Rightarrow> int \<Rightarrow> u32 list" where
  "ShiftArrayRight_loop prev [] bits = []"
| "ShiftArrayRight_loop prev (x # xs) bits =
     (shr32 x bits OR shl32 prev (32 - bits)) # ShiftArrayRight_loop x xs bits"

definition ShiftArrayRight :: "u32 list \<Rightarrow> int \<Rightarrow> u32 list" where
  "ShiftArrayRight array bits =
     (if length array > 0 \<and> bits \<noteq> 0
      then shr32 (hd array) bits # ShiftArrayRight_loop (hd array) (tl array) bits
      else array)"

definition FixDivisionSigns :: "Decimal128 \<Rightarrow> Decimal128 \<Rightarrow> bool \<Rightarrow> bool \<Rightarrow> Decimal128 \<times> Decimal128" where
  "FixDivisionSigns result remainder dividend_was_negative divisor_was_negative =
     ((if dividend_was_negative \<noteq> divisor_was_negative then Negate result else result),
      (if dividend_was_negative then Negate remainder else remainder))"

text \<open>\<open>BuildFromArray\<close>: the status and the content of \<open>*value\<close> afterwards.\<close>

definition BuildFromArray :: "Decimal128 \<Rightarrow> u32 list \<Rightarrow> Status \<times> Decimal128" where
  "BuildFromArray v array =
     (case array of
        [] \<Rightarrow> (OK, Decimal128_of_int64 0)
      | [a0] \<Rightarrow> (OK, Decimal128_of_int64 (ucast a0))
      | [a0, a1] \<Rightarrow> (OK, Decimal128_of_parts 0 (push_bit 32 (ucast a0) + ucast a1))
      | [a0, a1, a2] \<Rightarrow>
          (OK, Decimal128_of_parts (ucast a0) (push_bit 32 (ucast a1) + ucast a2))
      | [a0, a1, a2, a3] \<Rightarrow>
          (OK, Decimal128_of_parts (push_bit 32 (ucast a0) + ucast a1)
                 (push_bit 32 (ucast a2) + ucast a3))
      | [a0, a1, a2, a3, a4] \<Rightarrow>
          (if a0 \<noteq> 0 then (Invalid ''Can't build Decimal128 with 5 ints.'', v)
           else (OK, Decimal128_of_parts (push_bit 32 (ucast a1) + ucast a2)
                       (push_bit 32 (ucast a3) + ucast a4)))
      | _ \<Rightarrow> (Invalid ''Unsupported length for building Decimal128'', v))"

text \<open>The loop of \<open>SingleDivide\<close>: the 64-bit running remainder \<open>r\<close> and the quotient limbs.\<close>

fun SingleDivide_loop :: "u32 list \<Rightarrow> u32 \<Rightarrow> u64 \<Rightarrow> u32 list \<times> u64" where
  "SingleDivide_loop [] divisor r = ([], r)"
| "SingleDivide_loop (d # ds) divisor r =
     (let r1 = push_bit 32 r + ucast d;
          q = (ucast (r1 div ucast divisor) :: u32);
          r2 = r1 mod ucast divisor;
          (qs, r3) = SingleDivide_loop ds divisor r2
      in (q # qs, r3))"

definition SingleDivide ::
  "u32 list \<Rightarrow> u32 \<Rightarrow> Decimal128 \<Rightarrow> bool \<Rightarrow> bool \<Rightarrow> Decimal128 \<Rightarrow> Status \<times> Decimal128 \<times> Decimal128" where
  "SingleDivide dividend divisor remainder dividend_was_negative divisor_was_negative result =
     (let (result_array, r) = SingleDivide_loop dividend divisor 0
      in case BuildFromArray result result_array of
           (Invalid m, result1) \<Rightarrow> (Invalid m, result1, remainder)
         | (OK, result1) \<Rightarrow>
             (let (result2, remainder2) =
                    FixDivisionSigns result1 (Decimal128_of_int64 r)
                      dividend_was_negative divisor_was_negative
              in (OK, result2, remainder2)))"

text \<open>Modelled from the spec: \<open>BitUtil::CountLeadingZeros\<close> of arrow/util/bit-util.h, which is
  not among the sources: for a 32-bit value other than 0, the number of zero bits above its
  highest set bit (\<open>clz\<close>). What the function returns for the value 0 is said nowhere; it is
  the parameter \<open>clz0\<close> here and of everything that divides.\<close>

fun CountLeadingZeros_from :: "nat \<Rightarrow> u32 \<Rightarrow> nat" where
  "CountLeadingZeros_from 0 v = 0"
| "CountLeadingZeros_from (Suc n) v = (if bit v n then 0 else Suc (CountLeadingZeros_from n v))"

definition CountLeadingZeros :: "int \<Rightarrow> u32 \<Rightarrow> int" where
  "CountLeadingZeros clz0 v = (if v = 0 then clz0 else int (CountLeadingZeros_from 32 v))"

text \<open>The \<open>while\<close> loop of \<open>Divide\<close> that lowers the guessed digit: \<open>v0\<close>, \<open>v1\<close> are
  \<open>divisor_array[0]\<close>, \<open>divisor_array[1]\<close> and \<open>u2\<close> is \<open>dividend_array[j + 2]\<close>.\<close>

function Divide_guess_loop :: "u32 \<Rightarrow> u32 \<Rightarrow> u32 \<Rightarrow> u32 \<Rightarrow> u32 \<Rightarrow> u32 \<times> u32" where
  "Divide_guess_loop v0 v1 u2 guess rhat =
     (if (ucast v1 :: u64) * ucast guess > push_bit 32 (ucast rhat) + ucast u2
      then (let guess1 = guess - 1; rhat1 = rhat + v0
            in if rhat1 < v0 then (guess1, rhat1)
               else Divide_guess_loop v0 v1 u2 guess1 rhat1)
      else (guess, rhat))"
  by pat_completeness auto
termination
proof (relation "measure (\<lambda>(v0, v1, u2, guess, rhat). unat guess)")
  show "wf (measure (\<lambda>(v0, v1, u2, guess, rhat). unat guess))" by simp
next
  fix v0 v1 u2 guess rhat :: u32 and guess1 rhat1 :: u32
  assume t: "(push_bit 32 (ucast rhat) + ucast u2 :: u64) < ucast v1 * ucast guess"
    and g: "guess1 = guess - 1"
  have "guess \<noteq> 0"
  proof
    assume "guess = 0"
    with t show False by simp
  qed
  then have "unat (guess - 1) < unat guess"
    by (simp add: unat_minus_one)
         (metis One_nat_def Suc_pred lessI not_gr_zero unat_eq_zero)
  with g show "((v0, v1, u2, guess1, rhat1), (v0, v1, u2, guess, rhat))
      \<in> measure (\<lambda>(v0, v1, u2, guess, rhat). unat guess)"
    by simp
qed

declare Divide_guess_loop.simps [simp del]

text \<open>The loop that subtracts \<open>guess * divisor\<close> from the dividend: \<open>i\<close> runs from
  \<open>divisor_length - 1\<close> down to 0; the first argument counts \<open>i + 1\<close>.\<close>

fun Divide_subtract_loop :: "nat \<Rightarrow> u32 \<Rightarrow> u32 list \<Rightarrow> nat \<Rightarrow> u64 \<Rightarrow> u32 list \<Rightarrow> u32 list \<times> u64" where
  "Divide_subtract_loop 0 guess divisor_array j mult dividend_array = (dividend_array, mult)"
| "Divide_subtract_loop (Suc i) guess divisor_array j mult dividend_array =
     (let mult1 = mult + ucast guess * ucast (divisor_array ! i);
          prev = dividend_array ! (j + i + 1);
          new = prev - ucast mult1;
          mult2 = drop_bit 32 mult1;
          mult3 = (if new > prev then mult2 + 1 else mult2)
      in Divide_subtract_loop i guess divisor_array j mult3 (dividend_array[j + i + 1 := new]))"

text \<open>The loop that adds the divisor back when the guess was too big.\<close>

fun Divide_addback_loop :: "nat \<Rightarrow> u32 list \<Rightarrow> nat \<Rightarrow> u32 \<Rightarrow> u32 list \<Rightarrow> u32 list \<times> u32" where
  "Divide_addback_loop 0 divisor_array j carry dividend_array = (dividend_array, carry)"
| "Divide_addback_loop (Suc i) divisor_array j carry dividend_array =
     (let sum = (ucast (divisor_array ! i) :: u64) + ucast (dividend_array ! (j + i + 1)) + ucast carry
      in Divide_addback_loop i divisor_array j (ucast (drop_bit 32 sum))
           (dividend_array[j + i + 1 := ucast sum]))"

text \<open>One round of the loop "compute each digit in the result". The division by
  \<open>divisor_array[0]\<close> is an integer division: by zero it is undefined.\<close>

definition Divide_digit :: "u32 list \<Rightarrow> u32 list \<Rightarrow> nat \<Rightarrow> (u32 list \<times> u32) outcome" where
  "Divide_digit divisor_array dividend_array j =
     (if dividend_array ! j \<noteq> divisor_array ! 0 \<and> divisor_array ! 0 = 0 then Undefined
      else
       (let high_dividend =
              (push_bit 32 (ucast (dividend_array ! j)) OR ucast (dividend_array ! (j + 1)) :: u64);
            guess0 = (if dividend_array ! j \<noteq> divisor_array ! 0
                      then ucast (high_dividend div ucast (divisor_array ! 0))
                      else (0xFFFFFFFF :: u32));
            rhat = (ucast (high_dividend - ucast guess0 * ucast (divisor_array ! 0)) :: u32);
            (guess1, rhat1) =
              Divide_guess_loop (divisor_array ! 0) (divisor_array ! 1) (dividend_array ! (j + 2))
                guess0 rhat;
            (dividend1, mult) =
              Divide_subtract_loop (length divisor_array) guess1 divisor_array j 0 dividend_array;
            prev = dividend1 ! j;
            dividend2 = dividend1[j := prev - ucast mult]
        in if dividend2 ! j > prev then
             (let (dividend3, carry) =
                    Divide_addback_loop (length divisor_array) divisor_array j 0 dividend2
              in Returns (dividend3[j := dividend3 ! j + carry], guess1 - 1))
           else Returns (dividend2, guess1)))"

text \<open>The digit loop: \<open>n\<close> rounds are left, starting at \<open>j\<close>.\<close>

fun Divide_digits :: "nat \<Rightarrow> u32 list \<Rightarrow> u32 list \<Rightarrow> nat \<Rightarrow> (u32 list \<times> u32 list) outcome" where
  "Divide_digits 0 divisor_array dividend_array j = Returns (dividend_array, [])"
| "Divide_digits (Suc n) divisor_array dividend_array j =
     (case Divide_digit divisor_array dividend_array j of
        Undefined \<Rightarrow> Undefined
      | Throws e \<Rightarrow> Throws e
      | Returns (dividend1, guess) \<Rightarrow>
         (case Divide_digits n divisor_array dividend1 (j + 1) of
            Undefined \<Rightarrow> Undefined
          | Throws e \<Rightarrow> Throws e
          | Returns (dividend2, result_array) \<Rightarrow> Returns (dividend2, guess # result_array)))"

text \<open>\<open>Decimal128::Divide\<close>. The last argument holds what \<open>*result\<close> and \<open>*remainder\<close>
  contain before the call; the value returned holds the status and what they contain
  afterwards.\<close>

definition Divide ::
  "int \<Rightarrow> Decimal128 \<Rightarrow> Decimal128 \<Rightarrow> Decimal128 \<times> Decimal128
     \<Rightarrow> (Status \<times> Decimal128 \<times> Decimal128) outcome" where
  "Divide clz0 this divisor out =
     (let (result, remainder) = out;
          (dividend_limbs, dividend_was_negative) = FillInArray this;
          dividend_array = 0 # dividend_limbs;
          dividend_length = length dividend_array;
          (divisor_array, divisor_was_negative) = FillInArray divisor;
          divisor_length = length divisor_array
      in if dividend_length \<le> divisor_length
           then Returns (OK, Decimal128_of_int64 0, this)
         else if divisor_length = 0
           then Returns (Invalid ''Division by 0 in Decimal128'', result, remainder)
         else if divisor_length = 1
           then Returns (SingleDivide dividend_array (divisor_array ! 0) remainder
                           dividend_was_negative divisor_was_negative result)
         else
           (let result_length = dividend_length - divisor_length;
                normalize_bits = CountLeadingZeros clz0 (divisor_array ! 0);
                divisor1 = ShiftArrayLeft divisor_array normalize_bits;
                dividend1 = ShiftArrayLeft dividend_array normalize_bits
            in case Divide_digits result_length divisor1 dividend1 0 of
                 Undefined \<Rightarrow> Undefined
               | Throws e \<Rightarrow> Throws e
               | Returns (dividend2, result_array) \<Rightarrow>
                  (let dividend3 = ShiftArrayRight dividend2 normalize_bits
                   in case BuildFromArray result result_array of
                        (Invalid m, result1) \<Rightarrow> Returns (Invalid m, result1, remainder)
                      | (OK, result1) \<Rightarrow>
                         (case BuildFromArray remainder dividend3 of
                            (Invalid m, remainder1) \<Rightarrow> Returns (Invalid m, result1, remainder1)
                          | (OK, remainder1) \<Rightarrow>
                             (let (result2, remainder2) =
                                    FixDivisionSigns result1 remainder1
                                      dividend_was_negative divisor_was_negative
                              in Returns (OK, result2, remainder2))))))"

section \<open>Formatting\<close>

text \<open>Modelled from the spec: the default constructor \<open>Decimal128()\<close> of decimal.h, the
  value 0.\<close>

definition Decimal128_zero :: Decimal128 where
  "Decimal128_zero = Decimal128_of_parts 0 0"

definition kTenTo36 :: Decimal128 where
  "kTenTo36 = Decimal128_of_parts 0xC097CE7BC90715 0xB34B9F1000000000"

definition kTenTo18 :: Decimal128 where
  "kTenTo18 = Decimal128_of_int64 0xDE0B6B3A7640000"

text \<open>What \<open>operator<<\<close> of a stream writes for an integer: the decimal digits, with a
  leading minus sign for a negative one, and with a plus sign for the others under
  \<open>std::showpos\<close>. \<open>setw(18)\<close> with \<open>setfill('0')\<close> pads the next item on the left.\<close>

definition digit_char :: "int \<Rightarrow> char" where
  "digit_char n = char_of (48 + n)"

function show_digits :: "int \<Rightarrow> string" where
  "show_digits n =
     (if n < 10 then [digit_char n] else show_digits (n div 10) @ [digit_char (n mod 10)])"
  by pat_completeness auto
termination
  by (relation "measure nat") auto

declare show_digits.simps [simp del]

definition show_int :: "int \<Rightarrow> string" where
  "show_int i = (if i < 0 then CHR ''-'' # show_digits (- i) else show_digits i)"

definition show_int_showpos :: "int \<Rightarrow> string" where
  "show_int_showpos i = (if i < 0 then CHR ''-'' # show_digits (- i) else CHR ''+'' # show_digits i)"

definition setw_fill :: "nat \<Rightarrow> char \<Rightarrow> string \<Rightarrow> string" where
  "setw_fill w c str = replicate (w - length str) c @ str"

text \<open>\<open>operator int64_t\<close>: the low half, read as a signed 64-bit integer.\<close>

definition to_int64 :: "Decimal128 \<Rightarrow> int" where
  "to_int64 d = sint (low_bits d)"

text \<open>\<open>ToIntegerString\<close>. The status of the two divisions is only looked at by a
  \<open>DCHECK\<close>; the second division writes its quotient into \<open>top\<close> again.\<close>

definition ToIntegerString :: "int \<Rightarrow> Decimal128 \<Rightarrow> string outcome" where
  "ToIntegerString clz0 this =
     (case Divide clz0 this kTenTo36 (Decimal128_zero, Decimal128_zero) of
        Undefined \<Rightarrow> Undefined
      | Throws e \<Rightarrow> Throws e
      | Returns (s, top1, remainder) \<Rightarrow>
         (let top_printed = \<not> eq_Decimal128 top1 (Decimal128_of_int64 0);
              buf1 = (if top_printed then show_int (to_int64 top1) else []);
              remainder1 = (if top_printed then Abs remainder else remainder)
          in case Divide clz0 remainder1 kTenTo18 (top1, Decimal128_zero) of
               Undefined \<Rightarrow> Undefined
             | Throws e \<Rightarrow> Throws e
             | Returns (s2, top2, tail) \<Rightarrow>
                (let mid_printed = top_printed \<or> \<not> eq_Decimal128 top2 (Decimal128_of_int64 0);
                     buf2 = (if mid_printed
                             then (if top_printed
                                   then buf1 @ setw_fill 18 (CHR ''0'') (show_int (to_int64 top2))
                                   else buf1 @ show_int (to_int64 top2))
                             else buf1);
                     tail1 = (if mid_printed \<and> \<not> top_printed then Abs tail else tail)
                 in Returns
                      (if mid_printed
                       then buf2 @ setw_fill 18 (CHR ''0'') (show_int (to_int64 tail1))
                       else buf2 @ show_int (to_int64 tail1)))))"

text \<open>\<open>std::string::operator[]\<close> gives the terminating NUL at the index \<open>size()\<close>;
  \<open>substr(pos, count)\<close> throws \<open>std::out_of_range\<close> when \<open>pos > size()\<close>.\<close>

definition string_at :: "string \<Rightarrow> nat \<Rightarrow> char" where
  "string_at str i = (if i < length str then str ! i else CHR 0x00)"

definition substr :: "string \<Rightarrow> nat \<Rightarrow> nat \<Rightarrow> string outcome" where
  "substr str pos count =
     (if pos > length str then Throws ''std::out_of_range''
      else Returns (take count (drop pos str)))"

definition substr_npos :: "string \<Rightarrow> nat \<Rightarrow> string outcome" where
  "substr_npos str pos =
     (if pos > length str then Throws ''std::out_of_range''
      else Returns (drop pos str))"

definition outcome_map :: "('a \<Rightarrow> 'b) \<Rightarrow> 'a outcome \<Rightarrow> 'b outcome" where
  "outcome_map f x = (case x of Returns a \<Rightarrow> Returns (f a) | Throws e \<Rightarrow> Throws e | Undefined \<Rightarrow> Undefined)"

definition outcome_bind :: "'a outcome \<Rightarrow> ('a \<Rightarrow> 'b outcome) \<Rightarrow> 'b outcome" where
  "outcome_bind x f = (case x of Returns a \<Rightarrow> f a | Throws e \<Rightarrow> Throws e | Undefined \<Rightarrow> Undefined)"

text \<open>\<open>ToStringNegativeScale\<close>; \<open>adjusted_exponent\<close> is an \<open>int32_t\<close>.\<close>

definition ToStringNegativeScale :: "string \<Rightarrow> 32 word \<Rightarrow> bool \<Rightarrow> string outcome" where
  "ToStringNegativeScale str adjusted_exponent is_negative =
     (let buf1 = [string_at str 0];
          buf2 = (if is_negative then buf1 @ [string_at str 1] else buf1);
          offset = (if is_negative then 2 else 1)
      in outcome_map
           (\<lambda>rest. buf2 @ ''.'' @ rest @ ''E'' @ show_int_showpos (sint adjusted_exponent))
           (substr_npos str offset))"

text \<open>\<open>ToString(int32_t scale)\<close>. The \<open>int32_t\<close> arithmetic wraps; the sizes converted
  with \<open>static_cast<size_t>\<close> are positive in the branches that convert them.\<close>

definition ToString :: "int \<Rightarrow> Decimal128 \<Rightarrow> 32 word \<Rightarrow> string outcome" where
  "ToString clz0 this scale =
     outcome_bind (ToIntegerString clz0 this) (\<lambda>str.
       if scale = 0 then Returns str
       else
         (let is_negative = less_Decimal128 this (Decimal128_of_int64 0);
              len = (word_of_nat (length str) :: 32 word);
              is_negative_offset = (if is_negative then 1 else 0 :: 32 word);
              adjusted_exponent = - scale + (len - 1 - is_negative_offset)
          in if scale <s 0 \<or> adjusted_exponent <s - 6
               then ToStringNegativeScale str adjusted_exponent is_negative
             else if is_negative then
               (if scale <s len - 1 then
                  (let n = unat (len - scale)
                   in outcome_bind (substr str 0 n) (\<lambda>a.
                        outcome_map (\<lambda>b. a @ ''.'' @ b) (substr str n (unat scale))))
                else if len - 1 = scale then
                  outcome_map (\<lambda>a. ''-0.'' @ a) (substr_npos str 1)
                else
                  outcome_map (\<lambda>a. (''-0.'' @ replicate (unat (scale - len + 1)) (CHR ''0'')) @ a)
                    (substr_npos str 1))
             else if scale <s len then
               (let n = unat (len - scale)
                in outcome_bind (substr str 0 n) (\<lambda>a.
                     outcome_map (\<lambda>b. a @ ''.'' @ b) (substr str n (unat scale))))
             else if len = scale then Returns (''0.'' @ str)
             else Returns (''0.'' @ replicate (unat (scale - len)) (CHR ''0'') @ str)))"

section \<open>Parsing\<close>

definition kInt64DecimalDigits :: nat where
  "kInt64DecimalDigits = 18"

definition kPowersOfTen :: "u64 list" where
  "kPowersOfTen =
     [1, 10, 100, 1000, 10000, 100000, 1000000, 10000000, 100000000, 1000000000,
      10000000000, 100000000000, 1000000000000, 10000000000000, 100000000000000,
      1000000000000000, 10000000000000000, 100000000000000000, 1000000000000000000]"

definition isdigit :: "char \<Rightarrow> bool" where
  "isdigit c \<longleftrightarrow> 48 \<le> (of_char c :: nat) \<and> (of_char c :: nat) \<le> 57"

definition isspace :: "char \<Rightarrow> bool" where
  "isspace c \<longleftrightarrow> (of_char c :: nat) = 32 \<or> (9 \<le> (of_char c :: nat) \<and> (of_char c :: nat) \<le> 13)"

text \<open>The value of a string of decimal digits.\<close>

definition digit_value :: "char \<Rightarrow> int" where
  "digit_value c = of_char c - 48"

definition digits_value :: "string \<Rightarrow> int" where
  "digits_value str = foldl (\<lambda>acc c. 10 * acc + digit_value c) 0 str"

text \<open>\<open>std::stol\<close> and \<open>std::stoll\<close> in base 10, both 64 bits wide (LP64): white space is
  skipped, a sign is optional, the digits that follow are converted and the rest of the
  string is ignored. Without a digit \<open>std::invalid_argument\<close> is thrown, and
  \<open>std::out_of_range\<close> when the number does not fit.\<close>

definition stol :: "string \<Rightarrow> u64 outcome" where
  "stol str =
     (let s1 = dropWhile isspace str;
          negative = (s1 \<noteq> [] \<and> hd s1 = CHR ''-'');
          s2 = (if s1 \<noteq> [] \<and> (hd s1 = CHR ''-'' \<or> hd s1 = CHR ''+'') then tl s1 else s1);
          ds = takeWhile isdigit s2;
          v = (if negative then - digits_value ds else digits_value ds)
      in if ds = [] then Throws ''std::invalid_argument''
         else if v < - (2 ^ 63) \<or> 2 ^ 63 - 1 < v then Throws ''std::out_of_range''
         else Returns (word_of_int v))"

definition stoll :: "string \<Rightarrow> u64 outcome" where
  "stoll str = stol str"

text \<open>\<open>StringToInteger\<close>: the loop takes groups of up to 18 digits from the front of what
  is left of the string.\<close>

function StringToInteger_loop :: "string \<Rightarrow> Decimal128 \<Rightarrow> Decimal128 outcome" where
  "StringToInteger_loop str out =
     (if str = [] then Returns out
      else
        (let group = min kInt64DecimalDigits (length str)
         in case stoll (take group str) of
              Undefined \<Rightarrow> Undefined
            | Throws e \<Rightarrow> Throws e
            | Returns chunk \<Rightarrow>
                (let multiple = kPowersOfTen ! group;
                     out1 = mul_assign out (Decimal128_of_int64 multiple);
                     out2 = add_assign out1 (Decimal128_of_int64 chunk)
                 in StringToInteger_loop (drop group str) out2)))"
  by pat_completeness auto
termination
  by (relation "measure (\<lambda>(str, out). length str)") (auto simp: kInt64DecimalDigits_def)

declare StringToInteger_loop.simps [simp del]

definition StringToInteger :: "string \<Rightarrow> Decimal128 \<Rightarrow> Decimal128 outcome" where
  "StringToInteger str out = StringToInteger_loop str out"

text \<open>\<open>FromString\<close>. Each of \<open>out\<close>, \<open>precision\<close> and \<open>scale\<close> is \<open>None\<close> for a null
  pointer and otherwise holds what the pointer's target contains; the result holds the
  status and the three targets afterwards. \<open>precision\<close> and \<open>scale\<close> are \<open>int\<close>, 32 bits.
  The iterator \<open>charp\<close> is the rest of the string from \<open>charp\<close> to \<open>end\<close>; reading \<open>*charp\<close>
  after the last character gives the terminating NUL.\<close>

type_synonym FromString_result = "Status \<times> Decimal128 option \<times> 32 word option \<times> 32 word option"

definition set_if :: "'a option \<Rightarrow> 'a \<Rightarrow> 'a option" where
  "set_if target v = (case target of None \<Rightarrow> None | Some _ \<Rightarrow> Some v)"

definition FromString_value ::
  "string \<Rightarrow> bool \<Rightarrow> Decimal128 option \<Rightarrow> 32 word option \<Rightarrow> 32 word option \<Rightarrow> FromString_result outcome" where
  "FromString_value digits is_negative out precision scale =
     (case out of
        None \<Rightarrow> Returns (OK, out, precision, scale)
      | Some _ \<Rightarrow>
          outcome_map
            (\<lambda>v. (OK, Some (if is_negative then Negate v else v), precision, scale))
            (StringToInteger digits (Decimal128_of_int64 0)))"

definition FromString_exponent ::
  "string \<Rightarrow> string \<Rightarrow> string \<Rightarrow> bool \<Rightarrow> Decimal128 option \<Rightarrow> 32 word option \<Rightarrow> 32 word option
     \<Rightarrow> FromString_result outcome" where
  "FromString_exponent charp whole_part fractional_part is_negative out precision scale =
     (let charp1 = tl charp;
          v = (if charp1 = [] then CHR 0x00 else hd charp1);
          starts_with_plus_or_minus = (v = CHR ''+'' \<or> v = CHR ''-'');
          digit_start = charp1;
          charp2 = (if starts_with_plus_or_minus then tl charp1 else charp1);
          charp3 = dropWhile isdigit charp2
      in if charp3 \<noteq> []
           then Returns (Invalid (''Found non decimal digit exponent value '' @ [CHR 0x27, hd charp3, CHR 0x27]),
                         out, precision, scale)
         else
           (case scale of
              None \<Rightarrow> FromString_value (whole_part @ fractional_part) is_negative out precision scale
            | Some _ \<Rightarrow>
               (case stol digit_start of
                  Undefined \<Rightarrow> Undefined
                | Throws e \<Rightarrow> Throws e
                | Returns e \<Rightarrow>
                    (let adjusted_exponent = (ucast e :: 32 word);
                         len = (word_of_nat (length whole_part + length fractional_part) :: 32 word)
                     in FromString_value (whole_part @ fractional_part) is_negative out precision
                          (Some (- adjusted_exponent + len - 1))))))"

text \<open>The part of \<open>FromString\<close> after the sign: \<open>charp0\<close> is the string from
  \<open>numeric_string_start\<close> on.\<close>

definition FromString_unsigned ::
  "string \<Rightarrow> bool \<Rightarrow> Decimal128 option \<Rightarrow> 32 word option \<Rightarrow> 32 word option
     \<Rightarrow> FromString_result outcome" where
  "FromString_unsigned charp0 is_negative out precision scale =
     (let numeric_string_start = charp0;
          charp1 = dropWhile (\<lambda>c. c = CHR ''0'') charp0
      in if charp1 = []
           then Returns (OK, set_if out (Decimal128_of_int64 0),
                         set_if precision (word_of_nat (length numeric_string_start - length charp1)),
                         set_if scale 0)
         else
           (let whole_part = takeWhile isdigit charp1;
                charp2 = dropWhile isdigit charp1
            in if charp2 \<noteq> [] \<and> hd charp2 = CHR ''.'' \<and> tl charp2 = []
                 then Returns (Invalid (''Decimal point must be followed by at least one base ten digit. Reached the ''
                                          @ ''end of the string.''), out, precision, scale)
               else if charp2 \<noteq> [] \<and> hd charp2 = CHR ''.'' \<and> \<not> isdigit (hd (tl charp2))
                 then Returns (Invalid (''Decimal point must be followed by a base ten digit. Found ''
                                          @ [CHR 0x27, hd (tl charp2), CHR 0x27]), out, precision, scale)
               else if charp2 \<noteq> [] \<and> hd charp2 \<noteq> CHR ''.''
                 then Returns (Invalid (''Expected base ten digit or decimal point but found ''
                                          @ [CHR 0x27, hd charp2, CHR 0x27] @ '' instead.''),
                               out, precision, scale)
               else
                 (let charp3 = (if charp2 = [] then [] else tl charp2);
                      fractional_part = takeWhile isdigit charp3;
                      charp4 = dropWhile isdigit charp3
                  in if charp4 \<noteq> [] \<and> hd charp4 \<noteq> CHR ''E'' \<and> hd charp4 \<noteq> CHR ''e''
                       then Returns (Invalid (''Found non base ten digit character ''
                                                @ [CHR 0x27, hd charp4, CHR 0x27]
                                                @ '' before the end of the string''),
                                     out, precision, scale)
                     else
                       (let precision1 =
                              set_if precision
                                (word_of_nat (length whole_part + length fractional_part))
                        in if charp4 \<noteq> []
                             then FromString_exponent charp4 whole_part fractional_part
                                    is_negative out precision1 scale
                           else FromString_value (whole_part @ fractional_part) is_negative
                                  out precision1
                                  (set_if scale (word_of_nat (length fractional_part)))))))"

definition FromString ::
  "string \<Rightarrow> Decimal128 option \<Rightarrow> 32 word option \<Rightarrow> 32 word option \<Rightarrow> FromString_result outcome" where
  "FromString s out precision scale =
     (if s = [] then Returns (Invalid ''Empty string cannot be converted to decimal'', out, precision, scale)
      else
        (let first_char = hd s;
             signed = (first_char = CHR ''+'' \<or> first_char = CHR ''-'');
             is_negative = (signed \<and> first_char = CHR ''-'');
             charp0 = (if signed then tl s else s)
         in if charp0 = []
              then Returns (Invalid (''Single character: '' @ [CHR 0x27, first_char, CHR 0x27]
                                       @ '' is not a valid decimal value''), out, precision, scale)
            else FromString_unsigned charp0 is_negative out precision scale))"

text \<open>The constructor \<open>Decimal128(const std::string&)\<close>: it starts from \<open>Decimal128()\<close> and
  calls \<open>FromString(str, this)\<close> with null \<open>precision\<close> and \<open>scale\<close>; the status is only
  looked at by a \<open>DCHECK\<close>.\<close>

definition Decimal128_of_string :: "string \<Rightarrow> Decimal128" where
  "Decimal128_of_string str =
     (case FromString str (Some Decimal128_zero) None None of
        Returns (st, Some v, p, sc) \<Rightarrow> v
      | _ \<Rightarrow> Decimal128_zero)"

section \<open>Rescaling\<close>

definition ScaleMultipliers :: "Decimal128 list" where
  "ScaleMultipliers =
     [Decimal128_of_int64 1,
      Decimal128_of_int64 10,
      Decimal128_of_int64 100,
      Decimal128_of_int64 1000,
      Decimal128_of_int64 10000,
      Decimal128_of_int64 100000,
      Decimal128_of_int64 1000000,
      Decimal128_of_int64 10000000,
      Decimal128_of_int64 100000000,
      Decimal128_of_int64 1000000000,
      Decimal128_of_int64 10000000000,
      Decimal128_of_int64 100000000000,
      Decimal128_of_int64 1000000000000,
      Decimal128_of_int64 10000000000000,
      Decimal128_of_int64 100000000000000,
      Decimal128_of_int64 1000000000000000,
      Decimal128_of_int64 10000000000000000,
      Decimal128_of_int64 100000000000000000,
      Decimal128_of_int64 1000000000000000000,
      Decimal128_of_string ''10000000000000000000'',
      Decimal128_of_string ''100000000000000000000'',
      Decimal128_of_string ''1000000000000000000000'',
      Decimal128_of_string ''10000000000000000000000'',
      Decimal128_of_string ''100000000000000000000000'',
      Decimal128_of_string ''1000000000000000000000000'',
      Decimal128_of_string ''10000000000000000000000000'',
      Decimal128_of_string ''100000000000000000000000000'',
      Decimal128_of_string ''1000000000000000000000000000'',
      Decimal128_of_string ''10000000000000000000000000000'',
      Decimal128_of_string ''100000000000000000000000000000'',
      Decimal128_of_string ''1000000000000000000000000000000'',
      Decimal128_of_string ''10000000000000000000000000000000'',
      Decimal128_of_string ''100000000000000000000000000000000'',
      Decimal128_of_string ''1000000000000000000000000000000000'',
      Decimal128_of_string ''10000000000000000000000000000000000'',
      Decimal128_of_string ''100000000000000000000000000000000000'',
      Decimal128_of_string ''1000000000000000000000000000000000000'',
      Decimal128_of_string ''10000000000000000000000000000000000000'',
      Decimal128_of_string ''100000000000000000000000000000000000000'']"

text \<open>\<open>RescaleWouldCauseDataLoss\<close>: whether data is lost, and \<open>*result\<close> afterwards. An
  \<open>abs_delta_scale\<close> outside the table reads past the array: undefined.\<close>

definition RescaleWouldCauseDataLoss ::
  "int \<Rightarrow> Decimal128 \<Rightarrow> 32 word \<Rightarrow> 32 word \<Rightarrow> Decimal128 \<Rightarrow> (bool \<times> Decimal128) outcome" where
  "RescaleWouldCauseDataLoss clz0 v delta_scale abs_delta_scale result =
     (if abs_delta_scale <s 0 \<or> length ScaleMultipliers \<le> unat abs_delta_scale then Undefined
      else
        (let multiplier = ScaleMultipliers ! unat abs_delta_scale
         in if delta_scale <s 0 then
              (case Divide clz0 v multiplier (result, Decimal128_zero) of
                 Undefined \<Rightarrow> Undefined
               | Throws e \<Rightarrow> Throws e
               | Returns (status, result1, remainder) \<Rightarrow>
                   Returns (\<not> eq_Decimal128 remainder (Decimal128_of_int64 0), result1))
            else
              (let result1 = times_Decimal128 v multiplier
               in Returns (less_Decimal128 result1 v, result1))))"

text \<open>\<open>Rescale\<close>: the status and \<open>*out\<close> afterwards. The \<open>DCHECK\<close>s do not change what
  the function does.\<close>

definition Rescale ::
  "int \<Rightarrow> Decimal128 \<Rightarrow> 32 word \<Rightarrow> 32 word \<Rightarrow> Decimal128 \<Rightarrow> (Status \<times> Decimal128) outcome" where
  "Rescale clz0 this original_scale new_scale out =
     (let delta_scale = new_scale - original_scale;
          abs_delta_scale = (if delta_scale <s 0 then - delta_scale else delta_scale)
      in outcome_bind (RescaleWouldCauseDataLoss clz0 this delta_scale abs_delta_scale out)
           (\<lambda>(rescale_would_cause_data_loss, out1).
              if rescale_would_cause_data_loss then
                outcome_map
                  (\<lambda>str. (Invalid (''Rescaling decimal value '' @ str
                                      @ '' from original scale of '' @ show_int (sint original_scale)
                                      @ '' to new scale of '' @ show_int (sint new_scale)
                                      @ '' would cause data loss''), out1))
                  (ToString clz0 this original_scale)
              else Returns (OK, out1)))"

section \<open>Bytes\<close>

text \<open>Modelled from the spec: \<open>BitUtil::ToLittleEndian\<close> and \<open>BitUtil::FromLittleEndian\<close> of
  arrow/util/bit-util.h, which is not among the sources. A 64-bit value converted with
  \<open>ToLittleEndian\<close> and stored through a \<open>uint64_t\<close> pointer leaves its eight bytes in
  memory, least significant first; \<open>FromLittleEndian\<close> of a load reads them back.\<close>

definition store_le64 :: "u64 \<Rightarrow> u8 list" where
  "store_le64 w = map (\<lambda>i. ucast (drop_bit (8 * i) w)) [0..<8]"

definition load_le64 :: "u8 list \<Rightarrow> u64" where
  "load_le64 bytes = foldr (\<lambda>b acc. ucast b OR push_bit 8 acc) bytes 0"

text \<open>\<open>ToBytes\<close> fills the 16 bytes at \<open>out\<close>; the constructor
  \<open>Decimal128(const uint8_t* bytes)\<close> reads 16 bytes.\<close>

definition ToBytes :: "Decimal128 \<Rightarrow> u8 list" where
  "ToBytes d = store_le64 (low_bits d) @ store_le64 (high_bits d)"

definition Decimal128_of_bytes :: "u8 list \<Rightarrow> Decimal128" where
  "Decimal128_of_bytes bytes =
     Decimal128_of_parts (load_le64 (take 8 (drop 8 bytes))) (load_le64 (take 8 bytes))"

section \<open>Numbers held in arrays of limbs\<close>


text \<open>When \<open>operator*=\<close> adds its carry twice: the sum of the middle partial products
  does not fit in 64 bits.\<close>

definition mul_carry :: "Decimal128 \<Rightarrow> Decimal128 \<Rightarrow> bool" where
  "mul_carry d right \<longleftrightarrow>
     2 ^ 64 \<le> unat (low_bits d AND kIntMask) * unat (low_bits right AND kIntMask) div 2 ^ 32
             + unat (drop_bit 32 (low_bits d)) * unat (low_bits right AND kIntMask)
             + unat (low_bits d AND kIntMask) * unat (drop_bit 32 (low_bits right))"

section \<open>Multiplication: the carry is added twice\<close>

text \<open>
  Claim C2: the multiplication operator returns the low 128 bits of the product of its
  operands, for every pair of operands. The code does not: when the sum of the two middle
  partial products overflows 64 bits, \<open>operator*=\<close> first sets \<open>high_bits_\<close> to the carry
  bit and then adds the carry bit once more. At \<open>x = y = 0x80000001FFFFFFFF\<close>, whose
  product \<open>0x4000000200000002FFFFFFFC00000001\<close> fits in 127 bits, the result is too big by
  \<open>2^96\<close>.
\<close>

theorem times_Decimal128_carry_twice:
  "times_Decimal128 \<lparr>high_bits = 0, low_bits = 0x80000001FFFFFFFF\<rparr>
                    \<lparr>high_bits = 0, low_bits = 0x80000001FFFFFFFF\<rparr>
     = \<lparr>high_bits = 0x4000000300000002, low_bits = 0xFFFFFFFC00000001\<rparr>
   \<and> to_word \<lparr>high_bits = 0, low_bits = 0x80000001FFFFFFFF\<rparr>
       * to_word \<lparr>high_bits = 0, low_bits = 0x80000001FFFFFFFF\<rparr>
     = to_word \<lparr>high_bits = 0x4000000200000002, low_bits = 0xFFFFFFFC00000001\<rparr>
   \<and> to_word (times_Decimal128 \<lparr>high_bits = 0, low_bits = 0x80000001FFFFFFFF\<rparr>
                                  \<lparr>high_bits = 0, low_bits = 0x80000001FFFFFFFF\<rparr>)
     \<noteq> to_word \<lparr>high_bits = 0, low_bits = 0x80000001FFFFFFFF\<rparr>
         * to_word \<lparr>high_bits = 0, low_bits = 0x80000001FFFFFFFF\<rparr>"
  by code_simp

section \<open>Rescaling to a larger scale\<close>

lemma ScaleMultipliers_length: "length ScaleMultipliers = 39"
  by (simp add: ScaleMultipliers_def)

lemma ScaleMultipliers_1: "ScaleMultipliers ! 1 = \<lparr>high_bits = 0, low_bits = 10\<rparr>"
  by (simp add: ScaleMultipliers_def Decimal128_of_int64_def word_sle_eq)

lemma ScaleMultipliers_14:
  "ScaleMultipliers ! 14 = \<lparr>high_bits = 0, low_bits = 100000000000000\<rparr>"
  by (simp add: ScaleMultipliers_def Decimal128_of_int64_def word_sle_eq)

lemma Decimal128_of_string_ten_to_19:
  "Decimal128_of_string ''10000000000000000000''
     = \<lparr>high_bits = 0, low_bits = 10000000000000000000\<rparr>"
  by code_simp

lemma ScaleMultipliers_19:
  "ScaleMultipliers ! 19 = \<lparr>high_bits = 0, low_bits = 10000000000000000000\<rparr>"
  by (simp add: ScaleMultipliers_def Decimal128_of_string_ten_to_19)

lemma show_int_small: "show_int 0 = ''0''" "show_int 1 = ''1''" "show_int 14 = ''14''"
  by code_simp+

lemma ToString_minus_one: "ToString clz0 \<lparr>high_bits = - 1, low_bits = - 1\<rparr> 0 = Returns ''-1''"
  by code_simp

lemma times_minus_one_ten:
  "times_Decimal128 \<lparr>high_bits = - 1, low_bits = - 1\<rparr> \<lparr>high_bits = 0, low_bits = 10\<rparr>
     = \<lparr>high_bits = - 1, low_bits = - 10\<rparr>"
  by code_simp

lemma less_minus_ten:
  "less_Decimal128 \<lparr>high_bits = - 1, low_bits = - 10\<rparr> \<lparr>high_bits = - 1, low_bits = - 1\<rparr>"
  by code_simp

lemma Rescale_minus_one:
  "Rescale clz0 \<lparr>high_bits = - 1, low_bits = - 1\<rparr> 0 1 Decimal128_zero
     = Returns (Invalid ''Rescaling decimal value -1 from original scale of 0 to new scale of 1 would cause data loss'',
                \<lparr>high_bits = - 1, low_bits = - 10\<rparr>)"
  using ScaleMultipliers_1
  by (simp add: Rescale_def RescaleWouldCauseDataLoss_def ScaleMultipliers_length word_sless_alt
        times_minus_one_ten less_minus_ten ToString_minus_one outcome_bind_def outcome_map_def
        show_int_small)

lemma times_ten_to_19:
  "times_Decimal128 \<lparr>high_bits = 0, low_bits = 0xEC000000FFFFFFFF\<rparr>
       \<lparr>high_bits = 0, low_bits = 10000000000000000000\<rparr>
     = \<lparr>high_bits = 0x7FEF9449B9E90303, low_bits = 0xFF20DCFB76180000\<rparr>"
  by code_simp

lemma not_less_ten_to_19:
  "\<not> less_Decimal128 \<lparr>high_bits = 0x7FEF9449B9E90303, low_bits = 0xFF20DCFB76180000\<rparr>
        \<lparr>high_bits = 0, low_bits = 0xEC000000FFFFFFFF\<rparr>"
  by code_simp

lemma Rescale_ten_to_19:
  "Rescale clz0 \<lparr>high_bits = 0, low_bits = 0xEC000000FFFFFFFF\<rparr> 0 19 Decimal128_zero
     = Returns (OK, \<lparr>high_bits = 0x7FEF9449B9E90303, low_bits = 0xFF20DCFB76180000\<rparr>)"
  using ScaleMultipliers_19
  by (simp add: Rescale_def RescaleWouldCauseDataLoss_def ScaleMultipliers_length word_sless_alt
        times_ten_to_19 not_less_ten_to_19 outcome_bind_def outcome_map_def)

lemma to_int_minus_one: "to_int \<lparr>high_bits = - 1, low_bits = - 1\<rparr> = - 1"
  by code_simp

text \<open>
  Claim C3: for every value \<open>x\<close> and every delta between 1 and 38, if \<open>x * 10^delta\<close> does
  not overflow then \<open>Rescale\<close> to the larger scale succeeds with the result
  \<open>x * 10^delta\<close>. The code does not: \<open>RescaleWouldCauseDataLoss\<close> reports a loss when the
  product is less than the value, which every negative value meets, so rescaling \<open>-1\<close>
  from scale 0 to scale 1 fails although \<open>-10\<close> is representable; and the product itself
  is wrong when \<open>operator*=\<close> adds its carry twice, so rescaling \<open>0xEC000000FFFFFFFF\<close> from
  scale 0 to scale 19 succeeds with a result that is \<open>2^96\<close> above
  \<open>0xEC000000FFFFFFFF * 10^19\<close>.
\<close>

theorem Rescale_up_fails:
  "Rescale clz0 \<lparr>high_bits = - 1, low_bits = - 1\<rparr> 0 1 Decimal128_zero
     = Returns (Invalid ''Rescaling decimal value -1 from original scale of 0 to new scale of 1 would cause data loss'',
                \<lparr>high_bits = - 1, low_bits = - 10\<rparr>)
   \<and> to_int \<lparr>high_bits = - 1, low_bits = - 1\<rparr> = - 1
   \<and> Rescale clz0 \<lparr>high_bits = 0, low_bits = 0xEC000000FFFFFFFF\<rparr> 0 19 Decimal128_zero
     = Returns (OK, \<lparr>high_bits = 0x7FEF9449B9E90303, low_bits = 0xFF20DCFB76180000\<rparr>)
   \<and> to_int \<lparr>high_bits = 0x7FEF9449B9E90303, low_bits = 0xFF20DCFB76180000\<rparr>
     = 0xEC000000FFFFFFFF * 10 ^ 19 + 2 ^ 96
   \<and> (0xEC000000FFFFFFFF * 10 ^ 19 :: int) < 2 ^ 127"
  by (simp add: Rescale_minus_one Rescale_ten_to_19 to_int_minus_one) (simp add: to_int_def)

section \<open>Parsing an exponent without digits\<close>

text \<open>
  Claim C4: an input in which \<open>E\<close> or \<open>e\<close> is not followed by an optional sign and at least
  one digit yields \<open>Invalid\<close>; in particular this holds for inputs that end after the \<open>E\<close>
  or after the exponent sign. The code does not return \<open>Invalid\<close> there: with a \<open>scale\<close>
  to fill in, the exponent string \<open>+\<close> or the empty one reaches \<open>std::stol\<close>, which throws
  \<open>std::invalid_argument\<close>; without a \<open>scale\<close> the call returns \<open>OK\<close>.
\<close>

theorem FromString_exponent_without_digits:
  "FromString ''1.5E+'' (Some Decimal128_zero) (Some 0) (Some 0) = Throws ''std::invalid_argument''
   \<and> FromString ''1.5E'' (Some Decimal128_zero) (Some 0) (Some 0) = Throws ''std::invalid_argument''
   \<and> FromString ''1.5E+'' (Some Decimal128_zero) None None
       = Returns (OK, Some \<lparr>high_bits = 0, low_bits = 15\<rparr>, None, None)"
  by code_simp

section \<open>Rescaling to a smaller scale\<close>

lemma Divide_ten_to_14:
  "Divide clz0 \<lparr>high_bits = 0x5AF3107A3FFF, low_bits = 0xFFFFA50CEF85C000\<rparr>
       \<lparr>high_bits = 0, low_bits = 100000000000000\<rparr> (Decimal128_zero, Decimal128_zero)
     = Returns (OK, \<lparr>high_bits = 0, low_bits = 18446744067664922516\<rparr>,
                \<lparr>high_bits = 32768, low_bits = 92685412646912\<rparr>)"
  by code_simp

lemma ToString_scale_14:
  "ToString clz0 \<lparr>high_bits = 0x5AF3107A3FFF, low_bits = 0xFFFFA50CEF85C000\<rparr> 14
     = Returns ''18446744073709551615.00000000000000''"
  by code_simp

text \<open>
  Claim C5: for every value \<open>x\<close> and every delta between 1 and 38, \<open>Rescale\<close> to the smaller
  scale succeeds if and only if \<open>x\<close> is a multiple of \<open>10^delta\<close>, with the exact quotient as
  result. The code does not: \<open>Divide\<close> keeps \<open>rhat\<close> in a \<open>uint32_t\<close>, and when the guessed
  digit is \<open>2^32 - 1\<close> and \<open>rhat\<close> does not fit, the loop that lowers the guess runs on the
  truncated \<open>rhat\<close> and lowers a guess that was right. For \<open>x = (2^64 - 1) * 10^14\<close> the
  division by \<open>10^14\<close> leaves a remainder, and \<open>Rescale\<close> from scale 14 to scale 0 fails.
\<close>

theorem Rescale_down_fails_on_multiple:
  "to_int \<lparr>high_bits = 0x5AF3107A3FFF, low_bits = 0xFFFFA50CEF85C000\<rparr> = (2 ^ 64 - 1) * 10 ^ 14
   \<and> Rescale clz0 \<lparr>high_bits = 0x5AF3107A3FFF, low_bits = 0xFFFFA50CEF85C000\<rparr> 14 0 Decimal128_zero
     = Returns (Invalid ''Rescaling decimal value 18446744073709551615.00000000000000 from original scale of 14 to new scale of 0 would cause data loss'',
                \<lparr>high_bits = 0, low_bits = 18446744067664922516\<rparr>)"
  using ScaleMultipliers_14
  by (simp add: Rescale_def RescaleWouldCauseDataLoss_def ScaleMultipliers_length word_sless_alt
        Divide_ten_to_14 ToString_scale_14 outcome_bind_def outcome_map_def show_int_small
        eq_Decimal128_def Decimal128_of_int64_def to_int_def)

section \<open>Bytes: the round trip\<close>

lemma store_le64_eq:
  "store_le64 w = [ucast w, ucast (drop_bit 8 w), ucast (drop_bit 16 w), ucast (drop_bit 24 w),
     ucast (drop_bit 32 w), ucast (drop_bit 40 w), ucast (drop_bit 48 w), ucast (drop_bit 56 w)]"
  by (simp add: store_le64_def upt_rec)

lemma ucast_u8_u64: "(ucast (ucast (x :: u64) :: u8) :: u64) = take_bit 8 x"
  by (rule bit_word_eqI) (auto simp: bit_simps)

lemma take_bit_split8:
  "take_bit 8 (x :: u64) OR push_bit 8 (take_bit m (drop_bit 8 x)) = take_bit (8 + m) x"
  by (rule bit_word_eqI) (auto simp: bit_simps)

lemma load_le64_map:
  "load_le64 (map (\<lambda>i. ucast (drop_bit (8 * i) w)) [k..<k + n])
     = take_bit (8 * n) (drop_bit (8 * k) w)"
proof (induction n arbitrary: k)
  case 0
  then show ?case by (simp add: load_le64_def)
next
  case (Suc n)
  have "[k..<k + Suc n] = k # [Suc k..<Suc k + n]"
    by (simp add: upt_rec)
  then have "load_le64 (map (\<lambda>i. ucast (drop_bit (8 * i) w)) [k..<k + Suc n])
      = ucast (ucast (drop_bit (8 * k) w) :: u8)
        OR push_bit 8 (load_le64 (map (\<lambda>i. ucast (drop_bit (8 * i) w)) [Suc k..<Suc k + n]))"
    by (simp add: load_le64_def)
  also have "\<dots> = take_bit 8 (drop_bit (8 * k) w)
        OR push_bit 8 (take_bit (8 * n) (drop_bit 8 (drop_bit (8 * k) w)))"
    unfolding Suc.IH [of "Suc k"] ucast_u8_u64 by (simp add: add.commute)
  also have "\<dots> = take_bit (8 * Suc n) (drop_bit (8 * k) w)"
    using take_bit_split8 [of "drop_bit (8 * k) w" "8 * n"] by simp
  finally show ?case .
qed

lemma load_le64_store_le64: "load_le64 (store_le64 w) = w"
  using load_le64_map [of w 0 8] by (simp add: store_le64_def take_bit_word_eq_self)

lemma length_store_le64: "length (store_le64 w) = 8"
  by (simp add: store_le64_def)

text \<open>
  Claim C9: for every value \<open>x\<close>, \<open>ToBytes\<close> writes exactly 16 bytes, bytes 0 to 7 holding
  the low half and bytes 8 to 15 the high half, each least significant byte first, and the
  constructor from 16 bytes gives \<open>x\<close> back.
\<close>

theorem ToBytes_roundtrip:
  "length (ToBytes x) = 16
   \<and> ToBytes x =
       [ucast (low_bits x), ucast (drop_bit 8 (low_bits x)), ucast (drop_bit 16 (low_bits x)),
        ucast (drop_bit 24 (low_bits x)), ucast (drop_bit 32 (low_bits x)),
        ucast (drop_bit 40 (low_bits x)), ucast (drop_bit 48 (low_bits x)),
        ucast (drop_bit 56 (low_bits x)),
        ucast (high_bits x), ucast (drop_bit 8 (high_bits x)), ucast (drop_bit 16 (high_bits x)),
        ucast (drop_bit 24 (high_bits x)), ucast (drop_bit 32 (high_bits x)),
        ucast (drop_bit 40 (high_bits x)), ucast (drop_bit 48 (high_bits x)),
        ucast (drop_bit 56 (high_bits x))]
   \<and> Decimal128_of_bytes (ToBytes x) = x"
proof -
  have "Decimal128_of_bytes (ToBytes x) = x"
    by (simp add: ToBytes_def Decimal128_of_bytes_def Decimal128_of_parts_def
          length_store_le64 load_le64_store_le64)
  moreover have "length (ToBytes x) = 16"
    by (simp add: ToBytes_def length_store_le64)
  ultimately show ?thesis
    by (simp add: ToBytes_def store_le64_eq)
qed

section \<open>Division: arithmetic of limbs\<close>


























section \<open>Division: the guessed digit\<close>


















section \<open>Division: one round of the digit loop\<close>







section \<open>Division: normalisation and the arrays of limbs\<close>





























section \<open>Division: the status returned\<close>



text \<open>The hypothesis on \<open>clz0\<close> cannot be dropped: were the count of leading zeros of 0
  itself 0, the divisor \<open>2\<^sup>3\<^sup>2 - 1\<close>, whose limbs \<open>FillInArray\<close> gives as
  \<open>[0, 0xFFFFFFFF]\<close>, would not be shifted, and the second round would divide by its limb 0.\<close>

lemma Divide_unshifted_zero_limb:
  "Divide 0 \<lparr>high_bits = 0xFFFFFFFF, low_bits = 0x100000000\<rparr>
     \<lparr>high_bits = 0, low_bits = 0xFFFFFFFF\<rparr> (Decimal128_zero, Decimal128_zero) = Undefined"
  by code_simp





end
